theory Spec2Isabelle
  imports Complex_Main "HOL-Library.AList"
begin

section \<open>JavaScript numbers\<close>

text \<open>
  A JavaScript Number is an IEEE-754 binary64 value: NaN, +Infinity, -Infinity, the
  negative zero, or a finite value. \<open>Fin 0\<close> is the positive zero. Every finite binary64
  value is a rational, so \<open>Fin q\<close> ranges over a superset of the finite Numbers.
  The operators below follow the case tables of ECMAScript (Number::multiply,
  Number::divide, Number::add, Math.round, the relational comparison) on the special
  values and on the sign of zero. On finite operands they compute the exact rational
  result: the rounding of a result to 53 bits and the overflow of a finite result to an
  infinity are not part of this model. A statement about a decimal tie (an index such as
  \<open>21.005\<close>) is therefore a statement about exact arithmetic; the examples below use
  inputs on which the binary64 run of the program gives the same result.
\<close>

datatype jsnum = NaN | PosInf | NegInf | NegZero | Fin rat

fun sign_bit :: "jsnum \<Rightarrow> bool" where
  "sign_bit NegInf = True"
| "sign_bit NegZero = True"
| "sign_bit (Fin q) = (q < 0)"
| "sign_bit _ = False"

fun is_zero :: "jsnum \<Rightarrow> bool" where
  "is_zero NegZero = True"
| "is_zero (Fin q) = (q = 0)"
| "is_zero _ = False"

fun is_inf :: "jsnum \<Rightarrow> bool" where
  "is_inf PosInf = True"
| "is_inf NegInf = True"
| "is_inf _ = False"

text \<open>The mathematical value of a finite Number (both zeros are 0); None for NaN and the infinities.\<close>

fun to_rat :: "jsnum \<Rightarrow> rat option" where
  "to_rat (Fin q) = Some q"
| "to_rat NegZero = Some 0"
| "to_rat _ = None"

fun val_of :: "jsnum \<Rightarrow> rat" where
  "val_of (Fin q) = q"
| "val_of _ = 0"

definition zero_of :: "bool \<Rightarrow> jsnum" where
  "zero_of negative = (if negative then NegZero else Fin 0)"

definition inf_of :: "bool \<Rightarrow> jsnum" where
  "inf_of negative = (if negative then NegInf else PosInf)"

text \<open>\<open>a * b\<close>: NaN is contagious, infinity times zero is NaN, and the sign of the result is
  the exclusive or of the operands' signs.\<close>

definition num_multiply :: "jsnum \<Rightarrow> jsnum \<Rightarrow> jsnum" where
  "num_multiply a b =
     (if a = NaN \<or> b = NaN then NaN
      else if is_inf a \<or> is_inf b then
        (if is_zero a \<or> is_zero b then NaN else inf_of (sign_bit a \<noteq> sign_bit b))
      else if is_zero a \<or> is_zero b then zero_of (sign_bit a \<noteq> sign_bit b)
      else Fin (val_of a * val_of b))"

text \<open>\<open>a / b\<close>: no exception on a zero divisor; 0/0 and infinity/infinity are NaN, a nonzero
  value over a zero is an infinity whose sign is the exclusive or of the signs.\<close>

definition num_divide :: "jsnum \<Rightarrow> jsnum \<Rightarrow> jsnum" where
  "num_divide a b =
     (if a = NaN \<or> b = NaN then NaN
      else if is_inf a then (if is_inf b then NaN else inf_of (sign_bit a \<noteq> sign_bit b))
      else if is_inf b then zero_of (sign_bit a \<noteq> sign_bit b)
      else if is_zero b then (if is_zero a then NaN else inf_of (sign_bit a \<noteq> sign_bit b))
      else if is_zero a then zero_of (sign_bit a \<noteq> sign_bit b)
      else Fin (val_of a / val_of b))"

text \<open>\<open>a + b\<close>: opposite infinities give NaN; the sum of two negative zeros is the negative
  zero, every other zero sum is the positive zero.\<close>

definition num_add :: "jsnum \<Rightarrow> jsnum \<Rightarrow> jsnum" where
  "num_add a b =
     (if a = NaN \<or> b = NaN then NaN
      else if is_inf a then (if is_inf b \<and> a \<noteq> b then NaN else a)
      else if is_inf b then b
      else if a = NegZero \<and> b = NegZero then NegZero
      else Fin (val_of a + val_of b))"



text \<open>\<open>Math.round(x)\<close>: NaN, the infinities and the zeros are returned as they are; a value in
  \<open>[-0.5, 0)\<close> gives the negative zero; otherwise the nearest integer, a tie going to the
  integer closer to +Infinity.\<close>

fun math_round :: "jsnum \<Rightarrow> jsnum" where
  "math_round (Fin q) =
     (if q < 0 \<and> - (1 / 2) \<le> q then NegZero else Fin (of_int \<lfloor>q + 1 / 2\<rfloor>))"
| "math_round x = x"

text \<open>\<open>a >= b\<close>: false whenever an operand is NaN; the two zeros are equal.\<close>

fun num_ge :: "jsnum \<Rightarrow> jsnum \<Rightarrow> bool" where
  "num_ge NaN _ = False"
| "num_ge _ NaN = False"
| "num_ge PosInf _ = True"
| "num_ge _ NegInf = True"
| "num_ge NegInf _ = False"
| "num_ge _ PosInf = False"
| "num_ge a b = (val_of b \<le> val_of a)"


section \<open>The scoring engine (utils/data.ts)\<close>

text \<open>
  \<open>interface Sample\<close>. The field \<open>id\<close> is written \<open>s_id\<close>; the other fields keep their
  names.
\<close>

record sample =
  s_id :: string
  projectId :: string
  sampleId :: string
  metal :: string
  Si :: jsnum
  Ii :: jsnum
  Mi :: jsnum
  latitude :: jsnum
  longitude :: jsnum
  district :: string
  city :: string
  date :: string

text \<open>
  \<^verbatim>\<open>const hmpi = (Si / Ii) * Mi * 100; return Math.round(hmpi * 100) / 100;\<close>
\<close>

definition calculateHMPI :: "'a sample_scheme \<Rightarrow> jsnum" where
  "calculateHMPI s =
     (let hmpi = num_multiply (num_multiply (num_divide (Si s) (Ii s)) (Mi s)) (Fin 100)
      in num_divide (math_round (num_multiply hmpi (Fin 100))) (Fin 100))"

record risk =
  level :: string
  color :: string

text \<open>The chain of \<open>if (hmpi >= t) return ...\<close> statements, in the source's order.\<close>

definition getRiskLevel :: "jsnum \<Rightarrow> risk" where
  "getRiskLevel hmpi =
     (if num_ge hmpi (Fin 100) then \<lparr>level = ''Very High Risk'', color = ''#DC2626''\<rparr>
      else if num_ge hmpi (Fin 50) then \<lparr>level = ''High Risk'', color = ''#EA580C''\<rparr>
      else if num_ge hmpi (Fin 25) then \<lparr>level = ''Moderate Risk'', color = ''#D97706''\<rparr>
      else if num_ge hmpi (Fin 10) then \<lparr>level = ''Low Risk'', color = ''#65A30D''\<rparr>
      else \<lparr>level = ''Safe'', color = ''#059669''\<rparr>)"




section \<open>JavaScript objects used as dictionaries\<close>

text \<open>
  The analytics page counts with a plain object: \<^verbatim>\<open>acc[k] = (acc[k] || 0) + 1\<close> on an
  accumulator that starts as \<open>{}\<close>. Such an object inherits from \<open>Object.prototype\<close>, so a
  read of a key it does not own finds the inherited property of that name, if any. The
  values that can occur are numbers, strings, \<open>undefined\<close> and the built-in objects found
  on the prototype (\<open>Builtin k\<close> is the value of the inherited property \<open>k\<close>).
\<close>

datatype jsval = Undefined | Num jsnum | Str string | Builtin string

text \<open>The own enumerable properties of an object, in creation order.\<close>

type_synonym jsobject = "(string \<times> jsval) list"

definition object_prototype_names :: "string list" where
  "object_prototype_names =
     [''constructor'', ''__defineGetter__'', ''__defineSetter__'', ''hasOwnProperty'',
      ''__lookupGetter__'', ''__lookupSetter__'', ''isPrototypeOf'', ''propertyIsEnumerable'',
      ''toString'', ''valueOf'', ''__proto__'', ''toLocaleString'']"

text \<open>\<open>obj[k]\<close> as a read: the own property, else the inherited one, else \<open>undefined\<close>.\<close>

definition obj_get :: "jsobject \<Rightarrow> string \<Rightarrow> jsval" where
  "obj_get obj k =
     (case map_of obj k of
        Some v \<Rightarrow> v
      | None \<Rightarrow> if k \<in> set object_prototype_names then Builtin k else Undefined)"

text \<open>
  \<open>obj[k] = v\<close> for a primitive \<open>v\<close>: an own property is overwritten in place, a new one is
  added last. The key \<open>__proto__\<close> is the accessor of \<open>Object.prototype\<close>, whose setter
  ignores a value that is neither an object nor null: the assignment creates nothing.
\<close>

definition obj_set :: "jsobject \<Rightarrow> string \<Rightarrow> jsval \<Rightarrow> jsobject" where
  "obj_set obj k v = (if k = ''__proto__'' then obj else AList.update k v obj)"

text \<open>\<open>x || 0\<close>: \<open>x\<close> when it is truthy, else 0. Falsy are \<open>undefined\<close>, the zeros, NaN and
  the empty string.\<close>

fun truthy :: "jsval \<Rightarrow> bool" where
  "truthy Undefined = False"
| "truthy (Num n) = (\<not> is_zero n \<and> n \<noteq> NaN)"
| "truthy (Str s) = (s \<noteq> [])"
| "truthy (Builtin k) = True"

definition or_zero :: "jsval \<Rightarrow> jsval" where
  "or_zero x = (if truthy x then x else Num (Fin 0))"

text \<open>
  The string a built-in object converts to: a native function prints as
  \<^verbatim>\<open>function name() { [native code] }\<close> (the property \<open>constructor\<close> is the function
  \<open>Object\<close>), and \<open>__proto__\<close> reads \<open>Object.prototype\<close> itself, which prints as
  \<^verbatim>\<open>[object Object]\<close>.
\<close>

definition builtin_to_string :: "string \<Rightarrow> string" where
  "builtin_to_string k =
     (if k = ''__proto__'' then ''[object Object]''
      else ''function '' @ (if k = ''constructor'' then ''Object'' else k) @ ''() { [native code] }'')"

text \<open>\<open>x + 1\<close>: numeric addition on a number; string concatenation with \<open>"1"\<close> when \<open>x\<close> is
  a string or an object; \<open>undefined + 1\<close> is NaN.\<close>

fun plus_one :: "jsval \<Rightarrow> jsval" where
  "plus_one (Num n) = Num (num_add n (Fin 1))"
| "plus_one (Str s) = Str (s @ ''1'')"
| "plus_one (Builtin k) = Str (builtin_to_string k @ ''1'')"
| "plus_one Undefined = Num NaN"

text \<open>Decimal digits.\<close>

definition digit_of :: "char \<Rightarrow> nat option" where
  "digit_of c = (let n = (of_char c :: nat) in if 48 \<le> n \<and> n \<le> 57 then Some (n - 48) else None)"

fun decimal_from :: "nat \<Rightarrow> string \<Rightarrow> nat option" where
  "decimal_from n [] = Some n"
| "decimal_from n (c # cs) =
     (case digit_of c of None \<Rightarrow> None | Some d \<Rightarrow> decimal_from (10 * n + d) cs)"

definition decimal :: "string \<Rightarrow> nat option" where
  "decimal s = (if s = [] then None else decimal_from 0 s)"

text \<open>
  An array index is a key that is the canonical decimal form (no leading zero) of an
  integer below \<open>2^32 - 1 = 4294967295\<close>.
\<close>

definition array_index :: "string \<Rightarrow> nat option" where
  "array_index k =
     (if 1 < length k \<and> hd k = CHR ''0'' then None
      else case decimal k of
             None \<Rightarrow> None
           | Some n \<Rightarrow> if n < 4294967295 then Some n else None)"

text \<open>
  \<open>Object.entries(obj)\<close>: the own properties, the array-index keys first in ascending
  numeric order, then the other keys in creation order.
\<close>

definition object_entries :: "jsobject \<Rightarrow> (string \<times> jsval) list" where
  "object_entries obj =
     sort_key (\<lambda>(k, v). case array_index k of Some n \<Rightarrow> n | None \<Rightarrow> 0)
       (filter (\<lambda>(k, v). array_index k \<noteq> None) obj)
     @ filter (\<lambda>(k, v). array_index k = None) obj"

section \<open>Array.prototype.sort\<close>



section \<open>The aggregation layer (the project analytics page)\<close>

text \<open>A sample with its index and risk level: \<^verbatim>\<open>{...sample, hmpi, riskLevel}\<close>.\<close>

record scored = sample +
  hmpi :: jsnum
  riskLevel :: risk

definition samplesWithHMPI :: "sample list \<Rightarrow> scored list" where
  "samplesWithHMPI projectSamples =
     map (\<lambda>s. sample.extend s
                \<lparr>hmpi = calculateHMPI s, riskLevel = getRiskLevel (calculateHMPI s)\<rparr>)
       projectSamples"

text \<open>\<^verbatim>\<open>acc[k] = (acc[k] || 0) + 1\<close>, the body of both counting reductions.\<close>

definition count_key :: "jsobject \<Rightarrow> string \<Rightarrow> jsobject" where
  "count_key acc k = obj_set acc k (plus_one (or_zero (obj_get acc k)))"

definition riskDistribution :: "sample list \<Rightarrow> jsobject" where
  "riskDistribution projectSamples =
     foldl (\<lambda>acc s. count_key acc (level (riskLevel s))) [] (samplesWithHMPI projectSamples)"

definition riskLevels :: "string list" where
  "riskLevels = [''Safe'', ''Low Risk'', ''Moderate Risk'', ''High Risk'', ''Very High Risk'']"

text \<open>An entry of \<open>riskChartData\<close>: \<^verbatim>\<open>{name, value, color}\<close>.\<close>

record risk_entry =
  r_name :: string
  r_value :: jsval
  r_color :: string

text \<open>\<open>s || d\<close> for an optional string \<open>s\<close>: \<open>undefined\<close> and the empty string give \<open>d\<close>.\<close>

definition string_or :: "string option \<Rightarrow> string \<Rightarrow> string" where
  "string_or s d = (case s of None \<Rightarrow> d | Some t \<Rightarrow> if t = [] then d else t)"

definition riskChartData :: "sample list \<Rightarrow> risk_entry list" where
  "riskChartData projectSamples =
     map (\<lambda>lvl.
           \<lparr>r_name = lvl,
            r_value = or_zero (obj_get (riskDistribution projectSamples) lvl),
            r_color = string_or
              (map_option (\<lambda>s. color (riskLevel s))
                 (find (\<lambda>s. level (riskLevel s) = lvl) (samplesWithHMPI projectSamples)))
              ''#666''\<rparr>)
       riskLevels"

text \<open>The number of samples that \<open>getRiskLevel\<close> classifies at a level.\<close>

definition risk_count :: "sample list \<Rightarrow> string \<Rightarrow> nat" where
  "risk_count projectSamples lvl =
     length (filter (\<lambda>s. level (getRiskLevel (calculateHMPI s)) = lvl) projectSamples)"

definition metalDistribution :: "sample list \<Rightarrow> jsobject" where
  "metalDistribution projectSamples =
     foldl (\<lambda>acc s. count_key acc (metal s)) [] (samplesWithHMPI projectSamples)"

text \<open>An entry of \<open>metalChartData\<close>: \<^verbatim>\<open>{name, count, avgHMPI}\<close>.\<close>

record metal_entry =
  m_name :: string
  m_count :: jsval
  avgHMPI :: jsnum

definition metalChartData :: "sample list \<Rightarrow> metal_entry list" where
  "metalChartData projectSamples =
     map (\<lambda>(m, n).
           \<lparr>m_name = m,
            m_count = n,
            avgHMPI = num_divide
              (foldl (\<lambda>sum s. num_add sum (hmpi s)) (Fin 0)
                 (filter (\<lambda>s. metal s = m) (samplesWithHMPI projectSamples)))
              (Fin (of_nat (length (filter (\<lambda>s. metal s = m) (samplesWithHMPI projectSamples)))))\<rparr>)
       (object_entries (metalDistribution projectSamples))"






section \<open>The data access layer (utils/data.ts)\<close>

text \<open>
  \<open>interface Project\<close>, \<open>interface Alert\<close> and \<open>interface Policy\<close>. Field names that occur in
  several interfaces carry the interface's initial (\<open>p_id\<close>, \<open>a_id\<close>, \<open>pol_id\<close>, ...). The
  threshold configuration is an object; \<open>updateProjectThreshold\<close> takes any \<open>object\<close>.
\<close>

datatype json = JNull | JBool bool | JNum jsnum | JStr string | JObj "(string \<times> json) list"

record project =
  p_id :: string
  p_name :: string
  p_description :: string
  p_district :: string
  p_city :: string
  p_createdAt :: string
  policyMakerThresholds :: json

datatype severity = Low | Medium | High

record alert =
  a_id :: string
  a_projectId :: string
  a_sampleId :: string
  message :: string
  severity :: severity
  acknowledged :: bool
  a_createdAt :: string

record policy =
  pol_id :: string
  pol_name :: string
  pol_metal :: string
  threshold :: jsnum
  createdBy :: string
  pol_createdAt :: string

text \<open>The error object of the store's client, and the \<open>{data, error}\<close> pair a request
  resolves to: rows and no error, or an error and no rows.\<close>

record store_error =
  err_message :: string
  err_code :: string

datatype 'a response = Success 'a | Failure store_error

text \<open>The four collections of the external store.\<close>

record store =
  projects :: "project list"
  samples :: "sample list"
  alerts :: "alert list"
  policies :: "policy list"

text \<open>
  The external tabular store is a hosted service and not part of the sources; its three
  operations are modelled from the specification (``generic select/insert/update-by-id
  operations returning either a result set or an error object''). One request is one
  round trip on one collection: it returns the response and the collection's new rows.
  \<open>fault\<close> is the error the store reports for this round trip, if any; a request that
  fails changes nothing. A partial row (\<open>Partial<T>\<close>, an update object) is modelled by
  the record update that writes its fields.
\<close>

text \<open>Modelled from the spec: the store's \<open>select('*')\<close>, which is not in the sources. It
  answers all rows of the collection.\<close>

definition store_select :: "store_error option \<Rightarrow> 'r list \<Rightarrow> 'r list response \<times> 'r list" where
  "store_select fault rows =
     (case fault of Some e \<Rightarrow> (Failure e, rows) | None \<Rightarrow> (Success rows, rows))"

text \<open>Modelled from the spec: the store's \<open>insert([row]).select()\<close>, which is not in the
  sources. It completes the partial row from \<open>assigned\<close>, the row of server-assigned
  values, adds it to the collection and answers the inserted row.\<close>

definition store_insert ::
  "'r \<Rightarrow> ('r \<Rightarrow> 'r) \<Rightarrow> store_error option \<Rightarrow> 'r list \<Rightarrow> 'r list response \<times> 'r list" where
  "store_insert assigned partial fault rows =
     (case fault of
        Some e \<Rightarrow> (Failure e, rows)
      | None \<Rightarrow> (Success [partial assigned], rows @ [partial assigned]))"

text \<open>Modelled from the spec: the store's \<open>update(patch).eq(column, value).select()\<close>,
  which is not in the sources. It writes the patch to every row the filter matches and
  answers the updated rows; the other rows stay as they are.\<close>

definition store_update ::
  "('r \<Rightarrow> 'r) \<Rightarrow> ('r \<Rightarrow> bool) \<Rightarrow> store_error option \<Rightarrow> 'r list \<Rightarrow> 'r list response \<times> 'r list" where
  "store_update patch matches fault rows =
     (case fault of
        Some e \<Rightarrow> (Failure e, rows)
      | None \<Rightarrow> (Success (map patch (filter matches rows)),
                 map (\<lambda>r. if matches r then patch r else r) rows))"

text \<open>
  A call either returns a value or throws. The console is the list of the
  \<open>console.error(label, error)\<close> calls made so far.
\<close>

datatype 'a outcome = Returned 'a | Thrown store_error

type_synonym console = "(string \<times> store_error) list"

text \<open>
  The exported functions. Each takes the store and the console and returns its outcome
  with the store and the console after the call. The read functions are
  \<^verbatim>\<open>if (error) { console.error(label, error); return []; } return data;\<close>
  and the write functions
  \<^verbatim>\<open>if (error) { console.error(label, error); throw error; } return data;\<close>
\<close>

definition fetchProjects ::
  "store_error option \<Rightarrow> store \<Rightarrow> console \<Rightarrow> project list outcome \<times> store \<times> console" where
  "fetchProjects fault st c =
     (let (resp, rows) = store_select fault (projects st);
          st' = st\<lparr>projects := rows\<rparr>
      in case resp of
           Failure error \<Rightarrow> (Returned [], st', c @ [(''Error fetching projects:'', error)])
         | Success data \<Rightarrow> (Returned data, st', c))"

definition fetchSamples ::
  "store_error option \<Rightarrow> store \<Rightarrow> console \<Rightarrow> sample list outcome \<times> store \<times> console" where
  "fetchSamples fault st c =
     (let (resp, rows) = store_select fault (samples st);
          st' = st\<lparr>samples := rows\<rparr>
      in case resp of
           Failure error \<Rightarrow> (Returned [], st', c @ [(''Error fetching samples:'', error)])
         | Success data \<Rightarrow> (Returned data, st', c))"

definition fetchAlerts ::
  "store_error option \<Rightarrow> store \<Rightarrow> console \<Rightarrow> alert list outcome \<times> store \<times> console" where
  "fetchAlerts fault st c =
     (let (resp, rows) = store_select fault (alerts st);
          st' = st\<lparr>alerts := rows\<rparr>
      in case resp of
           Failure error \<Rightarrow> (Returned [], st', c @ [(''Error fetching alerts:'', error)])
         | Success data \<Rightarrow> (Returned data, st', c))"

definition fetchPolicies ::
  "store_error option \<Rightarrow> store \<Rightarrow> console \<Rightarrow> policy list outcome \<times> store \<times> console" where
  "fetchPolicies fault st c =
     (let (resp, rows) = store_select fault (policies st);
          st' = st\<lparr>policies := rows\<rparr>
      in case resp of
           Failure error \<Rightarrow> (Returned [], st', c @ [(''Error fetching policies:'', error)])
         | Success data \<Rightarrow> (Returned data, st', c))"

definition createProject ::
  "project \<Rightarrow> (project \<Rightarrow> project) \<Rightarrow> store_error option \<Rightarrow> store \<Rightarrow> console
   \<Rightarrow> project list outcome \<times> store \<times> console" where
  "createProject assigned projectData fault st c =
     (let (resp, rows) = store_insert assigned projectData fault (projects st);
          st' = st\<lparr>projects := rows\<rparr>
      in case resp of
           Failure error \<Rightarrow> (Thrown error, st', c @ [(''Error creating project:'', error)])
         | Success data \<Rightarrow> (Returned data, st', c))"

definition createSample ::
  "sample \<Rightarrow> (sample \<Rightarrow> sample) \<Rightarrow> store_error option \<Rightarrow> store \<Rightarrow> console
   \<Rightarrow> sample list outcome \<times> store \<times> console" where
  "createSample assigned sampleData fault st c =
     (let (resp, rows) = store_insert assigned sampleData fault (samples st);
          st' = st\<lparr>samples := rows\<rparr>
      in case resp of
           Failure error \<Rightarrow> (Thrown error, st', c @ [(''Error creating sample:'', error)])
         | Success data \<Rightarrow> (Returned data, st', c))"

definition acknowledgeAlert ::
  "string \<Rightarrow> store_error option \<Rightarrow> store \<Rightarrow> console \<Rightarrow> alert list outcome \<times> store \<times> console" where
  "acknowledgeAlert alertId fault st c =
     (let (resp, rows) =
            store_update (\<lambda>a. a\<lparr>acknowledged := True\<rparr>) (\<lambda>a. a_id a = alertId) fault (alerts st);
          st' = st\<lparr>alerts := rows\<rparr>
      in case resp of
           Failure error \<Rightarrow> (Thrown error, st', c @ [(''Error acknowledging alert:'', error)])
         | Success data \<Rightarrow> (Returned data, st', c))"

definition createPolicy ::
  "policy \<Rightarrow> (policy \<Rightarrow> policy) \<Rightarrow> store_error option \<Rightarrow> store \<Rightarrow> console
   \<Rightarrow> policy list outcome \<times> store \<times> console" where
  "createPolicy assigned policyData fault st c =
     (let (resp, rows) = store_insert assigned policyData fault (policies st);
          st' = st\<lparr>policies := rows\<rparr>
      in case resp of
           Failure error \<Rightarrow> (Thrown error, st', c @ [(''Error creating policy:'', error)])
         | Success data \<Rightarrow> (Returned data, st', c))"

definition updateProjectThreshold ::
  "string \<Rightarrow> json \<Rightarrow> store_error option \<Rightarrow> store \<Rightarrow> console
   \<Rightarrow> project list outcome \<times> store \<times> console" where
  "updateProjectThreshold projId thresholds fault st c =
     (let (resp, rows) =
            store_update (\<lambda>p. p\<lparr>policyMakerThresholds := thresholds\<rparr>) (\<lambda>p. p_id p = projId)
              fault (projects st);
          st' = st\<lparr>projects := rows\<rparr>
      in case resp of
           Failure error \<Rightarrow> (Thrown error, st', c @ [(''Error updating project threshold:'', error)])
         | Success data \<Rightarrow> (Returned data, st', c))"

section \<open>Example data\<close>

text \<open>
  The first example row of \<open>excelTemplate.sampleData\<close>, as a Sample (the template has no
  \<open>id\<close> column; the store assigns one).
\<close>

definition sample_GNG_008 :: sample where
  "sample_GNG_008 =
     \<lparr>s_id = ''s1'', projectId = ''p1'', sampleId = ''GNG-008'', metal = ''Lead'',
      Si = Fin (9 / 100), Ii = Fin (3 / 10), Mi = Fin (7 / 10),
      latitude = Fin (253176 / 10000), longitude = Fin (829739 / 10000),
      district = ''Varanasi'', city = ''Varanasi'', date = ''2025-01-20''\<rparr>"

text \<open>
  The second example row of the template (sample \<open>YMN-006\<close>), with the three measured
  quantities of the first row.
\<close>

definition sample_YMN_like :: sample where
  "sample_YMN_like =
     \<lparr>s_id = ''s2'', projectId = ''p2'', sampleId = ''YMN-006'', metal = ''Arsenic'',
      Si = Fin (9 / 100), Ii = Fin (3 / 10), Mi = Fin (7 / 10),
      latitude = Fin (287041 / 10000), longitude = Fin (771025 / 10000),
      district = ''New Delhi'', city = ''Delhi'', date = ''2025-02-12''\<rparr>"

text \<open>Two samples of the metal Lead with the indices 10 and 20, the later one first.\<close>

definition sample_lead_10 :: sample where
  "sample_lead_10 =
     \<lparr>s_id = ''s3'', projectId = ''p1'', sampleId = ''GNG-009'', metal = ''Lead'',
      Si = Fin 10, Ii = Fin 100, Mi = Fin 1,
      latitude = Fin (253176 / 10000), longitude = Fin (829739 / 10000),
      district = ''Varanasi'', city = ''Varanasi'', date = ''2025-02-01''\<rparr>"

definition sample_lead_20 :: sample where
  "sample_lead_20 =
     \<lparr>s_id = ''s4'', projectId = ''p1'', sampleId = ''GNG-010'', metal = ''Lead'',
      Si = Fin 20, Ii = Fin 100, Mi = Fin 1,
      latitude = Fin (253176 / 10000), longitude = Fin (829739 / 10000),
      district = ''Varanasi'', city = ''Varanasi'', date = ''2025-01-01''\<rparr>"

text \<open>A store with two projects, two samples, two alerts and one policy, and an error
  object as the store's client reports one.\<close>

definition example_error :: store_error where
  "example_error = \<lparr>err_message = ''permission denied for table projects'', err_code = ''42501''\<rparr>"

definition project_p1 :: project where
  "project_p1 =
     \<lparr>p_id = ''p1'', p_name = ''Ganga Basin'', p_description = ''River monitoring'',
      p_district = ''Varanasi'', p_city = ''Varanasi'', p_createdAt = ''2025-01-01'',
      policyMakerThresholds = JObj [(''HMPI'', JNum (Fin 50)), (''Lead'', JNum (Fin 10))]\<rparr>"

definition project_p2 :: project where
  "project_p2 =
     \<lparr>p_id = ''p2'', p_name = ''Yamuna Basin'', p_description = ''River monitoring'',
      p_district = ''New Delhi'', p_city = ''Delhi'', p_createdAt = ''2025-01-02'',
      policyMakerThresholds = JObj [(''HMPI'', JNum (Fin 100))]\<rparr>"

definition alert_a1 :: alert where
  "alert_a1 =
     \<lparr>a_id = ''a1'', a_projectId = ''p1'', a_sampleId = ''GNG-008'',
      message = ''HMPI above threshold'', severity = High, acknowledged = False,
      a_createdAt = ''2025-01-21''\<rparr>"

definition alert_a2 :: alert where
  "alert_a2 =
     \<lparr>a_id = ''a2'', a_projectId = ''p2'', a_sampleId = ''YMN-006'',
      message = ''HMPI above threshold'', severity = Low, acknowledged = False,
      a_createdAt = ''2025-02-13''\<rparr>"

definition policy_lead :: policy where
  "policy_lead =
     \<lparr>pol_id = ''pol1'', pol_name = ''Lead limit'', pol_metal = ''Lead'', threshold = Fin 50,
      createdBy = ''u1'', pol_createdAt = ''2025-01-03''\<rparr>"

definition example_store :: store where
  "example_store =
     \<lparr>projects = [project_p1, project_p2], samples = [sample_GNG_008, sample_YMN_like],
      alerts = [alert_a1, alert_a2], policies = [policy_lead]\<rparr>"

section \<open>Properties of the scoring engine\<close>

lemma to_rat_cases: "to_rat x = Some a \<Longrightarrow> x = Fin a \<or> (x = NegZero \<and> a = 0)"
  by (cases x) auto


lemma to_rat_divide:
  "to_rat x = Some a \<Longrightarrow> to_rat y = Some b \<Longrightarrow> b \<noteq> 0 \<Longrightarrow>
   to_rat (num_divide x y) = Some (a / b)"
  by (auto dest!: to_rat_cases simp: num_divide_def zero_of_def)






text \<open>
  C2, as stated, fails at +Infinity, which is a non-finite value and is not classified
  Safe: \<open>Infinity >= 100\<close> is true. A division-by-zero index can be +Infinity: the template
  sample with \<open>Ii = 0\<close> scores \<open>0.09 / 0 * 0.7 * 100 = Infinity\<close>.
\<close>

theorem getRiskLevel_infinity_counterexample:
  "calculateHMPI (sample_GNG_008\<lparr>Ii := Fin 0\<rparr>) = PosInf
   \<and> getRiskLevel PosInf = \<lparr>level = ''Very High Risk'', color = ''#DC2626''\<rparr>
   \<and> level (getRiskLevel (calculateHMPI (sample_GNG_008\<lparr>Ii := Fin 0\<rparr>))) \<noteq> ''Safe''"
  by (simp add: calculateHMPI_def sample_GNG_008_def num_divide_def num_multiply_def Let_def
      inf_of_def getRiskLevel_def)

text \<open>
  C2 (amended): \<open>getRiskLevel\<close> is total and returns the first matching row of the
  descending threshold table with inclusive lower bounds: a finite \<open>x\<close> with \<open>x \<ge> 100\<close>
  gives Very High Risk, \<open>x \<ge> 50\<close> High Risk, \<open>x \<ge> 25\<close> Moderate Risk, \<open>x \<ge> 10\<close> Low Risk,
  any other finite value (the negative ones and both zeros included) Safe. NaN and
  -Infinity give Safe; +Infinity gives Very High Risk.
\<close>

theorem getRiskLevel_table:
  "getRiskLevel x =
     (case x of
        NaN \<Rightarrow> \<lparr>level = ''Safe'', color = ''#059669''\<rparr>
      | NegInf \<Rightarrow> \<lparr>level = ''Safe'', color = ''#059669''\<rparr>
      | NegZero \<Rightarrow> \<lparr>level = ''Safe'', color = ''#059669''\<rparr>
      | PosInf \<Rightarrow> \<lparr>level = ''Very High Risk'', color = ''#DC2626''\<rparr>
      | Fin q \<Rightarrow>
          if 100 \<le> q then \<lparr>level = ''Very High Risk'', color = ''#DC2626''\<rparr>
          else if 50 \<le> q then \<lparr>level = ''High Risk'', color = ''#EA580C''\<rparr>
          else if 25 \<le> q then \<lparr>level = ''Moderate Risk'', color = ''#D97706''\<rparr>
          else if 10 \<le> q then \<lparr>level = ''Low Risk'', color = ''#65A30D''\<rparr>
          else \<lparr>level = ''Safe'', color = ''#059669''\<rparr>)"
  by (cases x) (simp_all add: getRiskLevel_def)

text \<open>The boundary values the specification lists, and the NaN of \<open>0 / 0\<close>.\<close>

theorem getRiskLevel_table_witness:
  "level (getRiskLevel (Fin 100)) = ''Very High Risk''
   \<and> level (getRiskLevel (Fin (9999 / 100))) = ''High Risk''
   \<and> level (getRiskLevel (Fin 50)) = ''High Risk''
   \<and> level (getRiskLevel (Fin (4999 / 100))) = ''Moderate Risk''
   \<and> level (getRiskLevel (Fin 25)) = ''Moderate Risk''
   \<and> level (getRiskLevel (Fin 10)) = ''Low Risk''
   \<and> level (getRiskLevel (Fin (999 / 100))) = ''Safe''
   \<and> level (getRiskLevel (Fin 0)) = ''Safe''
   \<and> level (getRiskLevel (Fin (- 5))) = ''Safe''
   \<and> level (getRiskLevel (calculateHMPI (sample_GNG_008\<lparr>Si := Fin 0, Ii := Fin 0\<rparr>))) = ''Safe''"
proof -
  have "calculateHMPI (sample_GNG_008\<lparr>Si := Fin 0, Ii := Fin 0\<rparr>) = NaN"
    by (simp add: calculateHMPI_def num_divide_def num_multiply_def Let_def)
  then show ?thesis
    using getRiskLevel_table[of "Fin 100"] getRiskLevel_table[of "Fin (9999 / 100)"]
      getRiskLevel_table[of "Fin 50"] getRiskLevel_table[of "Fin (4999 / 100)"]
      getRiskLevel_table[of "Fin 25"] getRiskLevel_table[of "Fin 10"]
      getRiskLevel_table[of "Fin (999 / 100)"] getRiskLevel_table[of "Fin 0"]
      getRiskLevel_table[of "Fin (- 5)"] getRiskLevel_table[of NaN]
    by simp
qed

text \<open>
  C10: \<open>calculateHMPI\<close> reads only \<open>Si\<close>, \<open>Ii\<close> and \<open>Mi\<close>: two samples that agree on these
  three fields get the same index, whatever their other fields (\<open>id\<close>, \<open>projectId\<close>,
  \<open>sampleId\<close>, \<open>metal\<close>, \<open>latitude\<close>, \<open>longitude\<close>, \<open>district\<close>, \<open>city\<close>, \<open>date\<close>) hold.
\<close>

theorem calculateHMPI_reads_only_Si_Ii_Mi:
  "Si s = Si s' \<Longrightarrow> Ii s = Ii s' \<Longrightarrow> Mi s = Mi s' \<Longrightarrow> calculateHMPI s = calculateHMPI s'"
  by (simp add: calculateHMPI_def)

theorem calculateHMPI_reads_only_Si_Ii_Mi_witness:
  "Si sample_GNG_008 = Si (sample_YMN_like)
   \<and> Ii sample_GNG_008 = Ii (sample_YMN_like)
   \<and> Mi sample_GNG_008 = Mi (sample_YMN_like)
   \<and> s_id sample_GNG_008 \<noteq> s_id sample_YMN_like
   \<and> projectId sample_GNG_008 \<noteq> projectId sample_YMN_like
   \<and> sampleId sample_GNG_008 \<noteq> sampleId sample_YMN_like
   \<and> metal sample_GNG_008 \<noteq> metal sample_YMN_like
   \<and> latitude sample_GNG_008 \<noteq> latitude sample_YMN_like
   \<and> longitude sample_GNG_008 \<noteq> longitude sample_YMN_like
   \<and> district sample_GNG_008 \<noteq> district sample_YMN_like
   \<and> city sample_GNG_008 \<noteq> city sample_YMN_like
   \<and> date sample_GNG_008 \<noteq> date sample_YMN_like
   \<and> calculateHMPI sample_GNG_008 = calculateHMPI sample_YMN_like"
proof -
  have h: "Si sample_GNG_008 = Si sample_YMN_like" "Ii sample_GNG_008 = Ii sample_YMN_like"
    "Mi sample_GNG_008 = Mi sample_YMN_like"
    by (simp_all add: sample_GNG_008_def sample_YMN_like_def)
  from calculateHMPI_reads_only_Si_Ii_Mi[OF h] h show ?thesis
    by (simp add: sample_GNG_008_def sample_YMN_like_def)
qed

section \<open>Properties of the data access layer\<close>

text \<open>Each exported function, in closed form: what it returns, the store and the console
  after the call, by whether the store reported an error.\<close>

lemma fetchProjects_eq:
  "fetchProjects fault st c =
     (case fault of
        Some e \<Rightarrow> (Returned [], st, c @ [(''Error fetching projects:'', e)])
      | None \<Rightarrow> (Returned (projects st), st, c))"
  by (cases fault) (simp_all add: fetchProjects_def store_select_def)

lemma fetchSamples_eq:
  "fetchSamples fault st c =
     (case fault of
        Some e \<Rightarrow> (Returned [], st, c @ [(''Error fetching samples:'', e)])
      | None \<Rightarrow> (Returned (samples st), st, c))"
  by (cases fault) (simp_all add: fetchSamples_def store_select_def)

lemma fetchAlerts_eq:
  "fetchAlerts fault st c =
     (case fault of
        Some e \<Rightarrow> (Returned [], st, c @ [(''Error fetching alerts:'', e)])
      | None \<Rightarrow> (Returned (alerts st), st, c))"
  by (cases fault) (simp_all add: fetchAlerts_def store_select_def)

lemma fetchPolicies_eq:
  "fetchPolicies fault st c =
     (case fault of
        Some e \<Rightarrow> (Returned [], st, c @ [(''Error fetching policies:'', e)])
      | None \<Rightarrow> (Returned (policies st), st, c))"
  by (cases fault) (simp_all add: fetchPolicies_def store_select_def)

lemma createProject_eq:
  "createProject assigned partial fault st c =
     (case fault of
        Some e \<Rightarrow> (Thrown e, st, c @ [(''Error creating project:'', e)])
      | None \<Rightarrow> (Returned [partial assigned], st\<lparr>projects := projects st @ [partial assigned]\<rparr>, c))"
  by (cases fault) (simp_all add: createProject_def store_insert_def)

lemma createSample_eq:
  "createSample assigned partial fault st c =
     (case fault of
        Some e \<Rightarrow> (Thrown e, st, c @ [(''Error creating sample:'', e)])
      | None \<Rightarrow> (Returned [partial assigned], st\<lparr>samples := samples st @ [partial assigned]\<rparr>, c))"
  by (cases fault) (simp_all add: createSample_def store_insert_def)

lemma createPolicy_eq:
  "createPolicy assigned partial fault st c =
     (case fault of
        Some e \<Rightarrow> (Thrown e, st, c @ [(''Error creating policy:'', e)])
      | None \<Rightarrow> (Returned [partial assigned], st\<lparr>policies := policies st @ [partial assigned]\<rparr>, c))"
  by (cases fault) (simp_all add: createPolicy_def store_insert_def)

lemma acknowledgeAlert_eq:
  "acknowledgeAlert alertId fault st c =
     (case fault of
        Some e \<Rightarrow> (Thrown e, st, c @ [(''Error acknowledging alert:'', e)])
      | None \<Rightarrow>
          (Returned (map (\<lambda>a. a\<lparr>acknowledged := True\<rparr>) (filter (\<lambda>a. a_id a = alertId) (alerts st))),
           st\<lparr>alerts := map (\<lambda>a. if a_id a = alertId then a\<lparr>acknowledged := True\<rparr> else a) (alerts st)\<rparr>,
           c))"
  by (cases fault) (simp_all add: acknowledgeAlert_def store_update_def)

lemma updateProjectThreshold_eq:
  "updateProjectThreshold projId t fault st c =
     (case fault of
        Some e \<Rightarrow> (Thrown e, st, c @ [(''Error updating project threshold:'', e)])
      | None \<Rightarrow>
          (Returned (map (\<lambda>p. p\<lparr>policyMakerThresholds := t\<rparr>) (filter (\<lambda>p. p_id p = projId) (projects st))),
           st\<lparr>projects := map (\<lambda>p. if p_id p = projId then p\<lparr>policyMakerThresholds := t\<rparr> else p) (projects st)\<rparr>,
           c))"
  by (cases fault) (simp_all add: updateProjectThreshold_def store_update_def)

text \<open>
  C6: the four fetch-all functions never throw. When the store reports an error they log
  it (one \<open>console.error\<close> with the function's label and the error) and return the empty
  list; otherwise they return the fetched rows. Neither case changes the store.
\<close>

theorem fetch_all_never_throws:
  "(\<forall>e. fst (fetchProjects fault st c) \<noteq> Thrown e)
   \<and> (\<forall>e. fst (fetchSamples fault st c) \<noteq> Thrown e)
   \<and> (\<forall>e. fst (fetchAlerts fault st c) \<noteq> Thrown e)
   \<and> (\<forall>e. fst (fetchPolicies fault st c) \<noteq> Thrown e)
   \<and> fetchProjects fault st c =
       (case fault of
          Some e \<Rightarrow> (Returned [], st, c @ [(''Error fetching projects:'', e)])
        | None \<Rightarrow> (Returned (projects st), st, c))
   \<and> fetchSamples fault st c =
       (case fault of
          Some e \<Rightarrow> (Returned [], st, c @ [(''Error fetching samples:'', e)])
        | None \<Rightarrow> (Returned (samples st), st, c))
   \<and> fetchAlerts fault st c =
       (case fault of
          Some e \<Rightarrow> (Returned [], st, c @ [(''Error fetching alerts:'', e)])
        | None \<Rightarrow> (Returned (alerts st), st, c))
   \<and> fetchPolicies fault st c =
       (case fault of
          Some e \<Rightarrow> (Returned [], st, c @ [(''Error fetching policies:'', e)])
        | None \<Rightarrow> (Returned (policies st), st, c))"
proof -
  have "\<forall>e. fst (fetchProjects fault st c) \<noteq> Thrown e"
    by (cases fault) (simp_all add: fetchProjects_eq)
  moreover have "\<forall>e. fst (fetchSamples fault st c) \<noteq> Thrown e"
    by (cases fault) (simp_all add: fetchSamples_eq)
  moreover have "\<forall>e. fst (fetchAlerts fault st c) \<noteq> Thrown e"
    by (cases fault) (simp_all add: fetchAlerts_eq)
  moreover have "\<forall>e. fst (fetchPolicies fault st c) \<noteq> Thrown e"
    by (cases fault) (simp_all add: fetchPolicies_eq)
  ultimately show ?thesis
    using fetchProjects_eq[of fault st c] fetchSamples_eq[of fault st c]
      fetchAlerts_eq[of fault st c] fetchPolicies_eq[of fault st c]
    by blast
qed

theorem fetch_all_never_throws_witness:
  "fetchProjects (Some example_error) example_store []
     = (Returned [], example_store, [(''Error fetching projects:'', example_error)])
   \<and> fetchProjects None example_store [] = (Returned [project_p1, project_p2], example_store, [])
   \<and> fetchSamples (Some example_error) example_store []
     = (Returned [], example_store, [(''Error fetching samples:'', example_error)])
   \<and> fetchAlerts None example_store [] = (Returned [alert_a1, alert_a2], example_store, [])
   \<and> fetchPolicies None example_store [] = (Returned [policy_lead], example_store, [])"
  using fetch_all_never_throws[of "Some example_error" example_store "[]"]
    fetch_all_never_throws[of None example_store "[]"]
  by (simp add: example_store_def)

text \<open>
  C7: each of the five write functions throws exactly when the store reports an error;
  it then throws the store's error, after logging it, and the store is unchanged.
  Otherwise it returns the rows the store answers: the inserted row, completed with the
  server-assigned values, for the three create functions, and the updated rows for
  \<open>acknowledgeAlert\<close> and \<open>updateProjectThreshold\<close>.
\<close>

theorem writes_throw_iff_store_error:
  "((\<exists>e. fst (createProject pa pd fault st c) = Thrown e) \<longleftrightarrow> fault \<noteq> None)
   \<and> ((\<exists>e. fst (createSample sa sd fault st c) = Thrown e) \<longleftrightarrow> fault \<noteq> None)
   \<and> ((\<exists>e. fst (createPolicy qa qd fault st c) = Thrown e) \<longleftrightarrow> fault \<noteq> None)
   \<and> ((\<exists>e. fst (acknowledgeAlert alertId fault st c) = Thrown e) \<longleftrightarrow> fault \<noteq> None)
   \<and> ((\<exists>e. fst (updateProjectThreshold projId t fault st c) = Thrown e) \<longleftrightarrow> fault \<noteq> None)
   \<and> createProject pa pd fault st c =
       (case fault of
          Some e \<Rightarrow> (Thrown e, st, c @ [(''Error creating project:'', e)])
        | None \<Rightarrow> (Returned [pd pa], st\<lparr>projects := projects st @ [pd pa]\<rparr>, c))
   \<and> createSample sa sd fault st c =
       (case fault of
          Some e \<Rightarrow> (Thrown e, st, c @ [(''Error creating sample:'', e)])
        | None \<Rightarrow> (Returned [sd sa], st\<lparr>samples := samples st @ [sd sa]\<rparr>, c))
   \<and> createPolicy qa qd fault st c =
       (case fault of
          Some e \<Rightarrow> (Thrown e, st, c @ [(''Error creating policy:'', e)])
        | None \<Rightarrow> (Returned [qd qa], st\<lparr>policies := policies st @ [qd qa]\<rparr>, c))
   \<and> acknowledgeAlert alertId fault st c =
       (case fault of
          Some e \<Rightarrow> (Thrown e, st, c @ [(''Error acknowledging alert:'', e)])
        | None \<Rightarrow>
            (Returned (map (\<lambda>a. a\<lparr>acknowledged := True\<rparr>)
                        (filter (\<lambda>a. a_id a = alertId) (alerts st))),
             st\<lparr>alerts :=
                  map (\<lambda>a. if a_id a = alertId then a\<lparr>acknowledged := True\<rparr> else a) (alerts st)\<rparr>,
             c))
   \<and> updateProjectThreshold projId t fault st c =
       (case fault of
          Some e \<Rightarrow> (Thrown e, st, c @ [(''Error updating project threshold:'', e)])
        | None \<Rightarrow>
            (Returned (map (\<lambda>p. p\<lparr>policyMakerThresholds := t\<rparr>)
                        (filter (\<lambda>p. p_id p = projId) (projects st))),
             st\<lparr>projects :=
                  map (\<lambda>p. if p_id p = projId then p\<lparr>policyMakerThresholds := t\<rparr> else p)
                    (projects st)\<rparr>,
             c))"
proof -
  have "(\<exists>e. fst (createProject pa pd fault st c) = Thrown e) \<longleftrightarrow> fault \<noteq> None"
    by (cases fault) (simp_all add: createProject_eq)
  moreover have "(\<exists>e. fst (createSample sa sd fault st c) = Thrown e) \<longleftrightarrow> fault \<noteq> None"
    by (cases fault) (simp_all add: createSample_eq)
  moreover have "(\<exists>e. fst (createPolicy qa qd fault st c) = Thrown e) \<longleftrightarrow> fault \<noteq> None"
    by (cases fault) (simp_all add: createPolicy_eq)
  moreover have "(\<exists>e. fst (acknowledgeAlert alertId fault st c) = Thrown e) \<longleftrightarrow> fault \<noteq> None"
    by (cases fault) (simp_all add: acknowledgeAlert_eq)
  moreover have "(\<exists>e. fst (updateProjectThreshold projId t fault st c) = Thrown e) \<longleftrightarrow> fault \<noteq> None"
    by (cases fault) (simp_all add: updateProjectThreshold_eq)
  ultimately show ?thesis
    using createProject_eq[of pa pd fault st c] createSample_eq[of sa sd fault st c]
      createPolicy_eq[of qa qd fault st c] acknowledgeAlert_eq[of alertId fault st c]
      updateProjectThreshold_eq[of projId t fault st c]
    by blast
qed

theorem writes_throw_iff_store_error_witness:
  "createProject project_p2 (\<lambda>p. p\<lparr>p_name := ''Gomti Basin''\<rparr>) (Some example_error) example_store []
     = (Thrown example_error, example_store, [(''Error creating project:'', example_error)])
   \<and> createProject project_p2 (\<lambda>p. p\<lparr>p_name := ''Gomti Basin''\<rparr>) None example_store []
     = (Returned [project_p2\<lparr>p_name := ''Gomti Basin''\<rparr>],
        example_store\<lparr>projects := [project_p1, project_p2, project_p2\<lparr>p_name := ''Gomti Basin''\<rparr>]\<rparr>,
        [])
   \<and> acknowledgeAlert ''a1'' (Some example_error) example_store []
     = (Thrown example_error, example_store, [(''Error acknowledging alert:'', example_error)])
   \<and> fst (acknowledgeAlert ''a1'' None example_store []) = Returned [alert_a1\<lparr>acknowledged := True\<rparr>]"
  using writes_throw_iff_store_error[of project_p2 "\<lambda>p. p\<lparr>p_name := ''Gomti Basin''\<rparr>"
      "Some example_error" example_store "[]" _ _ _ _ "''a1''"]
    writes_throw_iff_store_error[of project_p2 "\<lambda>p. p\<lparr>p_name := ''Gomti Basin''\<rparr>"
      None example_store "[]" _ _ _ _ "''a1''"]
  by (simp add: example_store_def alert_a1_def alert_a2_def)

text \<open>The acknowledgment patch on a collection of alerts.\<close>

lemma ack_map_twice:
  "map (\<lambda>a. if a_id a = k then a\<lparr>acknowledged := True\<rparr> else a)
     (map (\<lambda>a. if a_id a = k then a\<lparr>acknowledged := True\<rparr> else a) rows)
   = map (\<lambda>a. if a_id a = k then a\<lparr>acknowledged := True\<rparr> else a) rows"
  by (induction rows) simp_all

lemma ack_filter_after:
  "map (\<lambda>a. a\<lparr>acknowledged := True\<rparr>)
     (filter (\<lambda>a. a_id a = k)
        (map (\<lambda>a. if a_id a = k then a\<lparr>acknowledged := True\<rparr> else a) rows))
   = map (\<lambda>a. a\<lparr>acknowledged := True\<rparr>) (filter (\<lambda>a. a_id a = k) rows)"
  by (induction rows) simp_all

lemma ack_map_id:
  "\<forall>a\<in>set rows. a_id a = k \<longrightarrow> acknowledged a \<Longrightarrow>
   map (\<lambda>a. if a_id a = k then a\<lparr>acknowledged := True\<rparr> else a) rows = rows"
  by (induction rows) simp_all

lemma ack_map_acknowledged:
  "x \<in> set (map (\<lambda>a. if a_id a = k then a\<lparr>acknowledged := True\<rparr> else a) rows) \<Longrightarrow>
   a_id x = k \<Longrightarrow> acknowledged x"
proof (induction rows)
  case Nil
  then show ?case by simp
next
  case (Cons r rows)
  show ?case
  proof (cases "x = (if a_id r = k then r\<lparr>acknowledged := True\<rparr> else r)")
    case True
    with Cons.prems(2) show ?thesis by (cases "a_id r = k") simp_all
  next
    case False
    with Cons show ?thesis by simp
  qed
qed

text \<open>
  C8: \<open>acknowledgeAlert\<close> is idempotent. When the store reports no error, a call leaves
  every alert of the given id acknowledged, and a second call on the same id returns
  (it does not throw), answers the same rows and leaves the store and the console as the
  first call left them. A call on an id whose alerts are all acknowledged already
  changes nothing.
\<close>

theorem acknowledgeAlert_idempotent:
  assumes "acknowledgeAlert alertId None st c = (r1, st1, c1)"
  shows "acknowledgeAlert alertId None st1 c1 = (r1, st1, c1)
     \<and> (\<exists>rows. r1 = Returned rows)
     \<and> (\<forall>a\<in>set (alerts st1). a_id a = alertId \<longrightarrow> acknowledged a)
     \<and> ((\<forall>a\<in>set (alerts st). a_id a = alertId \<longrightarrow> acknowledged a) \<longrightarrow> st1 = st)"
proof -
  from assms have r1: "r1 = Returned (map (\<lambda>a. a\<lparr>acknowledged := True\<rparr>)
        (filter (\<lambda>a. a_id a = alertId) (alerts st)))"
    and st1: "st1 = st\<lparr>alerts :=
        map (\<lambda>a. if a_id a = alertId then a\<lparr>acknowledged := True\<rparr> else a) (alerts st)\<rparr>"
    and c1: "c1 = c"
    by (simp_all add: acknowledgeAlert_eq)
  have again: "acknowledgeAlert alertId None st1 c1 = (r1, st1, c1)"
    by (simp add: acknowledgeAlert_eq r1 st1 ack_map_twice ack_filter_after)
  have returned: "\<exists>rows. r1 = Returned rows"
    using r1 by simp
  have acked: "\<forall>a\<in>set (alerts st1). a_id a = alertId \<longrightarrow> acknowledged a"
  proof (intro ballI impI)
    fix a assume "a \<in> set (alerts st1)" and "a_id a = alertId"
    then show "acknowledged a"
      using ack_map_acknowledged[of a alertId "alerts st"] by (simp add: st1)
  qed
  have same: "(\<forall>a\<in>set (alerts st). a_id a = alertId \<longrightarrow> acknowledged a) \<longrightarrow> st1 = st"
    by (simp add: st1 ack_map_id)
  from again returned acked same show ?thesis by (intro conjI)
qed

theorem acknowledgeAlert_idempotent_witness:
  "acknowledgeAlert ''a1'' None example_store []
     = (Returned [alert_a1\<lparr>acknowledged := True\<rparr>],
        example_store\<lparr>alerts := [alert_a1\<lparr>acknowledged := True\<rparr>, alert_a2]\<rparr>, [])
   \<and> acknowledgeAlert ''a1'' None
       (example_store\<lparr>alerts := [alert_a1\<lparr>acknowledged := True\<rparr>, alert_a2]\<rparr>) []
     = (Returned [alert_a1\<lparr>acknowledged := True\<rparr>],
        example_store\<lparr>alerts := [alert_a1\<lparr>acknowledged := True\<rparr>, alert_a2]\<rparr>, [])"
proof -
  have first: "acknowledgeAlert ''a1'' None example_store []
     = (Returned [alert_a1\<lparr>acknowledged := True\<rparr>],
        example_store\<lparr>alerts := [alert_a1\<lparr>acknowledged := True\<rparr>, alert_a2]\<rparr>, [])"
    by (simp add: acknowledgeAlert_def store_update_def example_store_def alert_a1_def alert_a2_def)
  from acknowledgeAlert_idempotent[OF first] first show ?thesis by (intro conjI) simp_all
qed

text \<open>
  C9: when the store reports no error, \<open>updateProjectThreshold projId thresholds\<close> sets
  \<open>policyMakerThresholds\<close> of every project whose id is \<open>projId\<close> to the given object as a
  whole (nothing of the old object is kept), leaves the other fields of that project
  and every other project as they were, and leaves the other collections untouched.
\<close>

theorem updateProjectThreshold_frame:
  assumes "updateProjectThreshold projId t None st c = (r, st', c')"
  shows "length (projects st') = length (projects st)
     \<and> (\<forall>i<length (projects st).
          (p_id (projects st ! i) = projId \<longrightarrow>
             policyMakerThresholds (projects st' ! i) = t
             \<and> p_id (projects st' ! i) = p_id (projects st ! i)
             \<and> p_name (projects st' ! i) = p_name (projects st ! i)
             \<and> p_description (projects st' ! i) = p_description (projects st ! i)
             \<and> p_district (projects st' ! i) = p_district (projects st ! i)
             \<and> p_city (projects st' ! i) = p_city (projects st ! i)
             \<and> p_createdAt (projects st' ! i) = p_createdAt (projects st ! i))
          \<and> (p_id (projects st ! i) \<noteq> projId \<longrightarrow> projects st' ! i = projects st ! i))
     \<and> samples st' = samples st \<and> alerts st' = alerts st \<and> policies st' = policies st"
proof -
  from assms have st': "st' = st\<lparr>projects :=
        map (\<lambda>p. if p_id p = projId then p\<lparr>policyMakerThresholds := t\<rparr> else p) (projects st)\<rparr>"
    by (simp add: updateProjectThreshold_eq)
  show ?thesis
    by (simp add: st')
qed

text \<open>The old object \<open>{HMPI: 50, Lead: 10}\<close> of project \<open>p1\<close> is replaced by \<open>{HMPI: 75}\<close>: the
  key \<open>Lead\<close> is gone, so the update is not a merge.\<close>

theorem updateProjectThreshold_frame_witness:
  "updateProjectThreshold ''p1'' (JObj [(''HMPI'', JNum (Fin 75))]) None example_store []
     = (Returned [project_p1\<lparr>policyMakerThresholds := JObj [(''HMPI'', JNum (Fin 75))]\<rparr>],
        example_store\<lparr>projects :=
          [project_p1\<lparr>policyMakerThresholds := JObj [(''HMPI'', JNum (Fin 75))]\<rparr>, project_p2]\<rparr>,
        [])
   \<and> policyMakerThresholds project_p1 = JObj [(''HMPI'', JNum (Fin 50)), (''Lead'', JNum (Fin 10))]
   \<and> policyMakerThresholds (projects (fst (snd
        (updateProjectThreshold ''p1'' (JObj [(''HMPI'', JNum (Fin 75))]) None example_store []))) ! 0)
       = JObj [(''HMPI'', JNum (Fin 75))]
   \<and> projects (fst (snd
        (updateProjectThreshold ''p1'' (JObj [(''HMPI'', JNum (Fin 75))]) None example_store []))) ! 1
       = project_p2"
proof -
  have run: "updateProjectThreshold ''p1'' (JObj [(''HMPI'', JNum (Fin 75))]) None example_store []
     = (Returned [project_p1\<lparr>policyMakerThresholds := JObj [(''HMPI'', JNum (Fin 75))]\<rparr>],
        example_store\<lparr>projects :=
          [project_p1\<lparr>policyMakerThresholds := JObj [(''HMPI'', JNum (Fin 75))]\<rparr>, project_p2]\<rparr>,
        [])"
    by (simp add: updateProjectThreshold_def store_update_def example_store_def project_p1_def
        project_p2_def)
  have len: "length (projects example_store) = 2"
    and p1: "p_id (projects example_store ! 0) = ''p1''"
    and p2: "p_id (projects example_store ! 1) \<noteq> ''p1''"
    and p2': "projects example_store ! 1 = project_p2"
    and old: "policyMakerThresholds project_p1 = JObj [(''HMPI'', JNum (Fin 50)), (''Lead'', JNum (Fin 10))]"
    by (simp_all add: example_store_def project_p1_def project_p2_def)
  from updateProjectThreshold_frame[OF run] have
    all: "\<forall>i<length (projects example_store).
          (p_id (projects example_store ! i) = ''p1'' \<longrightarrow>
             policyMakerThresholds (projects (example_store\<lparr>projects :=
               [project_p1\<lparr>policyMakerThresholds := JObj [(''HMPI'', JNum (Fin 75))]\<rparr>, project_p2]\<rparr>) ! i)
             = JObj [(''HMPI'', JNum (Fin 75))])
          \<and> (p_id (projects example_store ! i) \<noteq> ''p1'' \<longrightarrow>
             projects (example_store\<lparr>projects :=
               [project_p1\<lparr>policyMakerThresholds := JObj [(''HMPI'', JNum (Fin 75))]\<rparr>, project_p2]\<rparr>) ! i
             = projects example_store ! i)"
    by blast
  from all[rule_format, of 0] all[rule_format, of 1] len p1 p2 p2' old run show ?thesis
    by simp
qed

section \<open>Properties of the aggregation layer\<close>

text \<open>The fields of a scored sample.\<close>

lemma scored_fields:
  "metal (sample.extend s m) = metal s"
  "date (sample.extend s m) = date s"
  "hmpi (sample.extend s \<lparr>hmpi = h, riskLevel = r\<rparr>) = h"
  "riskLevel (sample.extend s \<lparr>hmpi = h, riskLevel = r\<rparr>) = r"
  by (simp_all add: sample.defs)

lemma proto_name_in_list: "''__proto__'' \<in> set object_prototype_names"
  by (simp add: object_prototype_names_def)

lemma count_key_fresh_or_counted:
  assumes "k \<notin> set object_prototype_names"
    and "map_of acc k = (if n = 0 then None else Some (Num (Fin (of_nat n))))"
  shows "count_key acc k = AList.update k (Num (Fin (of_nat (Suc n)))) acc"
proof -
  from assms(1) have "k \<noteq> ''__proto__''"
    using proto_name_in_list by blast
  moreover have "plus_one (or_zero (obj_get acc k)) = Num (Fin (of_nat (Suc n)))"
    using assms by (cases "n = 0") (simp_all add: obj_get_def or_zero_def num_add_def)
  ultimately show ?thesis
    by (simp add: count_key_def obj_set_def)
qed

lemma count_key_fold:
  assumes "set ks \<inter> set object_prototype_names = {}"
  shows "distinct (map fst (foldl count_key [] ks))
     \<and> (\<forall>k. map_of (foldl count_key [] ks) k =
           (if count_list ks k = 0 then None else Some (Num (Fin (of_nat (count_list ks k))))))"
  using assms
proof (induction ks rule: rev_induct)
  case Nil
  show ?case by simp
next
  case (snoc x ks)
  let ?acc = "foldl count_key [] ks"
  from snoc.prems have x: "x \<notin> set object_prototype_names"
    and ks: "set ks \<inter> set object_prototype_names = {}"
    by auto
  from snoc.IH[OF ks] have d: "distinct (map fst ?acc)"
    and m: "\<And>k. map_of ?acc k =
        (if count_list ks k = 0 then None else Some (Num (Fin (of_nat (count_list ks k)))))"
    by blast+
  have step: "count_key ?acc x = AList.update x (Num (Fin (of_nat (Suc (count_list ks x))))) ?acc"
    using count_key_fresh_or_counted[OF x m] by simp
  have "distinct (map fst (foldl count_key [] (ks @ [x])))"
    using d by (simp add: step distinct_update)
  moreover have "map_of (foldl count_key [] (ks @ [x])) k =
        (if count_list (ks @ [x]) k = 0 then None
         else Some (Num (Fin (of_nat (count_list (ks @ [x]) k)))))" for k
    by (simp add: step update_conv' m)
  ultimately show ?case by blast
qed

lemma count_list_map_filter:
  "count_list (map f xs) k = length (filter (\<lambda>x. f x = k) xs)"
  by (induction xs) simp_all

lemma riskDistribution_fold:
  "riskDistribution projectSamples =
     foldl count_key [] (map (\<lambda>s. level (getRiskLevel (calculateHMPI s))) projectSamples)"
  by (simp add: riskDistribution_def samplesWithHMPI_def foldl_map scored_fields)

lemma level_in_riskLevels: "level (getRiskLevel x) \<in> set riskLevels"
  by (simp add: getRiskLevel_def riskLevels_def)

lemma riskLevels_not_inherited: "lvl \<in> set riskLevels \<Longrightarrow> lvl \<notin> set object_prototype_names"
  by (auto simp: riskLevels_def object_prototype_names_def)

lemma riskDistribution_value:
  assumes "lvl \<notin> set object_prototype_names"
  shows "or_zero (obj_get (riskDistribution projectSamples) lvl)
       = Num (Fin (of_nat (risk_count projectSamples lvl)))"
proof -
  let ?ks = "map (\<lambda>s. level (getRiskLevel (calculateHMPI s))) projectSamples"
  have "set ?ks \<inter> set object_prototype_names = {}"
    using level_in_riskLevels riskLevels_not_inherited by auto
  from count_key_fold[OF this] have
    "map_of (riskDistribution projectSamples) lvl =
       (if risk_count projectSamples lvl = 0 then None
        else Some (Num (Fin (of_nat (risk_count projectSamples lvl)))))"
    by (simp add: riskDistribution_fold count_list_map_filter risk_count_def)
  with assms show ?thesis
    by (simp add: obj_get_def or_zero_def)
qed

lemma find_scored:
  "find (\<lambda>s. level (riskLevel s) = lvl) (samplesWithHMPI projectSamples) =
     map_option (\<lambda>s. sample.extend s
                \<lparr>hmpi = calculateHMPI s, riskLevel = getRiskLevel (calculateHMPI s)\<rparr>)
       (find (\<lambda>s. level (getRiskLevel (calculateHMPI s)) = lvl) projectSamples)"
  by (induction projectSamples) (simp_all add: samplesWithHMPI_def scored_fields)

lemma riskChartData_color:
  assumes "\<And>x. level (getRiskLevel x) = lvl \<Longrightarrow> color (getRiskLevel x) = c" and "c \<noteq> []"
  shows "string_or
           (map_option (\<lambda>s. color (riskLevel s))
              (find (\<lambda>s. level (riskLevel s) = lvl) (samplesWithHMPI projectSamples)))
           ''#666''
         = (if risk_count projectSamples lvl = 0 then ''#666'' else c)"
proof (cases "find (\<lambda>s. level (getRiskLevel (calculateHMPI s)) = lvl) projectSamples")
  case None
  then have "risk_count projectSamples lvl = 0"
    by (simp add: risk_count_def find_None_iff filter_empty_conv)
  with None show ?thesis
    by (simp add: find_scored string_or_def)
next
  case (Some s)
  then have s: "level (getRiskLevel (calculateHMPI s)) = lvl" and "s \<in> set projectSamples"
    by (auto simp: find_Some_iff)
  then have "risk_count projectSamples lvl \<noteq> 0"
    by (auto simp: risk_count_def filter_empty_conv)
  with Some assms(1)[OF s] assms(2) show ?thesis
    by (simp add: find_scored string_or_def scored_fields)
qed

lemma canonical_colors:
  "level (getRiskLevel x) = ''Safe'' \<Longrightarrow> color (getRiskLevel x) = ''#059669''"
  "level (getRiskLevel x) = ''Low Risk'' \<Longrightarrow> color (getRiskLevel x) = ''#65A30D''"
  "level (getRiskLevel x) = ''Moderate Risk'' \<Longrightarrow> color (getRiskLevel x) = ''#D97706''"
  "level (getRiskLevel x) = ''High Risk'' \<Longrightarrow> color (getRiskLevel x) = ''#EA580C''"
  "level (getRiskLevel x) = ''Very High Risk'' \<Longrightarrow> color (getRiskLevel x) = ''#DC2626''"
  by (simp_all add: getRiskLevel_def split: if_splits)

lemma example_indices:
  "calculateHMPI sample_GNG_008 = Fin 21"
  "calculateHMPI sample_YMN_like = Fin 21"
  "calculateHMPI (sample_GNG_008\<lparr>Si := Fin 3\<rparr>) = Fin 700"
  by (simp_all add: calculateHMPI_def sample_GNG_008_def sample_YMN_like_def num_divide_def
      num_multiply_def Let_def floor_eq_iff)

text \<open>
  C3, as stated, fails for a level that no sample has: the colour is taken from the first
  sample of that level, and without one the entry gets the fallback \<open>#666\<close>. For the
  empty list all five entries have the count 0 and the colour \<open>#666\<close>, not the level's
  colour.
\<close>

theorem riskChartData_empty_counterexample:
  "riskChartData [] =
     [\<lparr>r_name = ''Safe'', r_value = Num (Fin 0), r_color = ''#666''\<rparr>,
      \<lparr>r_name = ''Low Risk'', r_value = Num (Fin 0), r_color = ''#666''\<rparr>,
      \<lparr>r_name = ''Moderate Risk'', r_value = Num (Fin 0), r_color = ''#666''\<rparr>,
      \<lparr>r_name = ''High Risk'', r_value = Num (Fin 0), r_color = ''#666''\<rparr>,
      \<lparr>r_name = ''Very High Risk'', r_value = Num (Fin 0), r_color = ''#666''\<rparr>]
   \<and> r_color (riskChartData [] ! 0) \<noteq> color (getRiskLevel (Fin 0))"
  by (simp add: riskChartData_def riskDistribution_def samplesWithHMPI_def obj_get_def
      or_zero_def string_or_def riskLevels_def object_prototype_names_def getRiskLevel_def)

text \<open>
  C3 (amended): for every list of samples, \<open>riskChartData\<close> has exactly five entries, in
  the order Safe, Low Risk, Moderate Risk, High Risk, Very High Risk. The value of an
  entry is the number of samples classified at its level (0 when there is none); its
  colour is the level's colour when at least one sample is classified at the level, and
  \<open>#666\<close> otherwise.
\<close>

theorem riskChartData_counts_and_colors:
  "riskChartData projectSamples =
     map (\<lambda>(lvl, c).
           \<lparr>r_name = lvl,
            r_value = Num (Fin (of_nat (risk_count projectSamples lvl))),
            r_color = (if risk_count projectSamples lvl = 0 then ''#666'' else c)\<rparr>)
       [(''Safe'', ''#059669''), (''Low Risk'', ''#65A30D''), (''Moderate Risk'', ''#D97706''),
        (''High Risk'', ''#EA580C''), (''Very High Risk'', ''#DC2626'')]"
proof -
  have v: "or_zero (obj_get (riskDistribution projectSamples) lvl)
       = Num (Fin (of_nat (risk_count projectSamples lvl)))" if "lvl \<in> set riskLevels" for lvl
    using that by (intro riskDistribution_value riskLevels_not_inherited)
  show ?thesis
    unfolding riskChartData_def
    by (simp add: riskLevels_def v riskChartData_color canonical_colors)
qed

theorem riskChartData_counts_and_colors_witness:
  "riskChartData [sample_GNG_008, sample_YMN_like, sample_GNG_008\<lparr>Si := Fin 3\<rparr>] =
     [\<lparr>r_name = ''Safe'', r_value = Num (Fin 0), r_color = ''#666''\<rparr>,
      \<lparr>r_name = ''Low Risk'', r_value = Num (Fin 2), r_color = ''#65A30D''\<rparr>,
      \<lparr>r_name = ''Moderate Risk'', r_value = Num (Fin 0), r_color = ''#666''\<rparr>,
      \<lparr>r_name = ''High Risk'', r_value = Num (Fin 0), r_color = ''#666''\<rparr>,
      \<lparr>r_name = ''Very High Risk'', r_value = Num (Fin 1), r_color = ''#DC2626''\<rparr>]"
  using riskChartData_counts_and_colors[of
      "[sample_GNG_008, sample_YMN_like, sample_GNG_008\<lparr>Si := Fin 3\<rparr>]"]
  by (simp add: risk_count_def example_indices getRiskLevel_def)








lemma lead_indices:
  "calculateHMPI sample_lead_10 = Fin 10"
  "calculateHMPI sample_lead_20 = Fin 20"
  by (simp_all add: calculateHMPI_def sample_lead_10_def sample_lead_20_def num_divide_def
      num_multiply_def Let_def floor_eq_iff)




text \<open>The per-metal summary.\<close>

lemma metalDistribution_fold:
  "metalDistribution projectSamples = foldl count_key [] (map metal projectSamples)"
  by (simp add: metalDistribution_def samplesWithHMPI_def foldl_map scored_fields)

lemma set_object_entries: "set (object_entries obj) = set obj"
  by (auto simp: object_entries_def)

lemma distinct_object_entries:
  assumes "distinct (map fst obj)"
  shows "distinct (map fst (object_entries obj))"
proof -
  from assms have d: "distinct obj" and inj: "inj_on fst (set obj)"
    by (simp_all add: distinct_map)
  have "distinct (object_entries obj)"
    using d by (auto simp: object_entries_def)
  with inj show ?thesis
    by (simp add: distinct_map set_object_entries)
qed

lemma to_rat_add:
  "to_rat x = Some a \<Longrightarrow> to_rat y = Some b \<Longrightarrow> to_rat (num_add x y) = Some (a + b)"
  by (auto dest!: to_rat_cases simp: num_add_def)

lemma to_rat_sum:
  assumes "\<forall>s\<in>set ss. to_rat (f s) = Some (idx s)" and "to_rat acc = Some a"
  shows "to_rat (foldl (\<lambda>sum s. num_add sum (f s)) acc ss) = Some (a + sum_list (map idx ss))"
  using assms
proof (induction ss arbitrary: acc a)
  case Nil
  then show ?case by simp
next
  case (Cons s ss)
  from Cons.prems have "to_rat (num_add acc (f s)) = Some (a + idx s)"
    by (simp add: to_rat_add)
  from Cons.IH[OF _ this] Cons.prems(1) show ?case
    by (simp add: add.assoc)
qed

lemma scored_group:
  "map hmpi (filter (\<lambda>s. metal s = m) (samplesWithHMPI projectSamples))
     = map calculateHMPI (filter (\<lambda>s. metal s = m) projectSamples)"
  by (induction projectSamples) (simp_all add: samplesWithHMPI_def scored_fields)

lemma foldl_hmpi:
  "foldl (\<lambda>sum s. num_add sum (hmpi s)) acc ss = foldl (\<lambda>sum h. num_add sum h) acc (map hmpi ss)"
  by (simp add: foldl_map)

text \<open>
  For samples whose metal names are not names of inherited properties, \<open>metalChartData\<close>
  has exactly one entry per metal present; the entry's count is the number of samples
  of the metal, and its average is the arithmetic mean of their indices when these are
  finite.
\<close>

lemma metalChartData_summary:
  assumes "set (map metal projectSamples) \<inter> set object_prototype_names = {}"
  shows "distinct (map m_name (metalChartData projectSamples))"
    and "set (map m_name (metalChartData projectSamples)) = metal ` set projectSamples"
    and "e \<in> set (metalChartData projectSamples) \<Longrightarrow>
         m_count e = Num (Fin (of_nat (length (filter (\<lambda>s. metal s = m_name e) projectSamples))))"
    and "e \<in> set (metalChartData projectSamples) \<Longrightarrow>
         \<forall>s\<in>set projectSamples. metal s = m_name e \<longrightarrow> to_rat (calculateHMPI s) = Some (idx s) \<Longrightarrow>
         to_rat (avgHMPI e) =
           Some (sum_list (map idx (filter (\<lambda>s. metal s = m_name e) projectSamples))
                 / of_nat (length (filter (\<lambda>s. metal s = m_name e) projectSamples)))"
proof -
  let ?D = "metalDistribution projectSamples"
  let ?n = "\<lambda>m. length (filter (\<lambda>s. metal s = m) projectSamples)"
  from count_key_fold[OF assms] have dD: "distinct (map fst ?D)"
    and mD: "\<And>k. map_of ?D k = (if ?n k = 0 then None else Some (Num (Fin (of_nat (?n k)))))"
    by (simp_all add: metalDistribution_fold count_list_map_filter)
  have names: "map m_name (metalChartData projectSamples) = map fst (object_entries ?D)"
    by (simp add: metalChartData_def comp_def case_prod_unfold)
  show "distinct (map m_name (metalChartData projectSamples))"
    using dD by (simp add: names distinct_object_entries)
  have "fst ` set ?D = {k. ?n k \<noteq> 0}"
    using mD by (auto simp: dom_map_of_conv_image_fst[symmetric] dom_def)
  also have "\<dots> = metal ` set projectSamples"
    by (auto simp: filter_empty_conv)
  finally show "set (map m_name (metalChartData projectSamples)) = metal ` set projectSamples"
    by (simp add: names set_object_entries)
  {
    assume "e \<in> set (metalChartData projectSamples)"
    then obtain m n where mn: "(m, n) \<in> set ?D" and e: "e =
        \<lparr>m_name = m, m_count = n,
         avgHMPI = num_divide
           (foldl (\<lambda>sum s. num_add sum (hmpi s)) (Fin 0)
              (filter (\<lambda>s. metal s = m) (samplesWithHMPI projectSamples)))
           (Fin (of_nat (length (filter (\<lambda>s. metal s = m) (samplesWithHMPI projectSamples)))))\<rparr>"
      by (auto simp: metalChartData_def set_object_entries)
    from mn dD have "map_of ?D m = Some n" by simp
    with mD[of m] have n: "n = Num (Fin (of_nat (?n m)))" and pos: "?n m \<noteq> 0"
      by (simp_all split: if_splits)
    show "m_count e = Num (Fin (of_nat (?n (m_name e))))"
      by (simp add: e n)
    have len: "length (filter (\<lambda>s. metal s = m) (samplesWithHMPI projectSamples)) = ?n m"
      using arg_cong[OF scored_group[of m projectSamples], of length] by simp
    assume fin: "\<forall>s\<in>set projectSamples. metal s = m_name e \<longrightarrow> to_rat (calculateHMPI s) = Some (idx s)"
    then have "\<forall>s\<in>set (filter (\<lambda>s. metal s = m) projectSamples). to_rat (calculateHMPI s) = Some (idx s)"
      by (simp add: e)
    from to_rat_sum[OF this, of "Fin 0" 0]
    have "to_rat (foldl (\<lambda>sum s. num_add sum (hmpi s)) (Fin 0)
              (filter (\<lambda>s. metal s = m) (samplesWithHMPI projectSamples)))
        = Some (sum_list (map idx (filter (\<lambda>s. metal s = m) projectSamples)))"
      by (simp add: foldl_hmpi scored_group foldl_map)
    from to_rat_divide[OF this, of "Fin (of_nat (?n m))" "of_nat (?n m)"] pos
    show "to_rat (avgHMPI e) =
           Some (sum_list (map idx (filter (\<lambda>s. metal s = m_name e) projectSamples))
                 / of_nat (?n (m_name e)))"
      by (simp add: e len)
  }
qed

text \<open>The example of the specification: two samples of the metal Lead with the indices 10
  and 20 give one entry with the count 2 and the average 15.\<close>

lemma object_entries_single:
  "array_index k = None \<Longrightarrow> object_entries [(k, v)] = [(k, v)]"
  by (simp add: object_entries_def)

lemma not_array_index:
  "array_index ''Lead'' = None" "array_index ''constructor'' = None"
  by (simp_all add: array_index_def decimal_def digit_of_def)

lemma metalChartData_lead_example:
  "metalChartData [sample_lead_10, sample_lead_20] =
     [\<lparr>m_name = ''Lead'', m_count = Num (Fin 2), avgHMPI = Fin 15\<rparr>]"
proof -
  have m: "metal sample_lead_10 = ''Lead''" "metal sample_lead_20 = ''Lead''"
    by (simp_all add: sample_lead_10_def sample_lead_20_def)
  have D: "metalDistribution [sample_lead_10, sample_lead_20] = [(''Lead'', Num (Fin 2))]"
    by (simp add: metalDistribution_fold m count_key_def obj_get_def obj_set_def or_zero_def
        object_prototype_names_def num_add_def)
  show ?thesis
    by (simp add: metalChartData_def D object_entries_single not_array_index samplesWithHMPI_def
        scored_fields m lead_indices num_add_def num_divide_def)
qed

text \<open>
  C4 fails on the code for a metal whose name is the name of a property that the
  accumulator \<open>{}\<close> inherits from \<open>Object.prototype\<close>. For one sample of the metal
  \<open>constructor\<close>, \<open>acc[metal] || 0\<close> is the inherited function \<open>Object\<close>, not 0, so the
  count of the entry is a string and not the number 1. For one sample of the metal
  \<open>__proto__\<close> the assignment \<open>acc[metal] = ...\<close> is ignored and the summary has no entry
  for the metal.
\<close>

theorem metalChartData_inherited_key:
  "metalChartData [sample_lead_10\<lparr>metal := ''constructor''\<rparr>] =
     [\<lparr>m_name = ''constructor'', m_count = Str ''function Object() { [native code] }1'',
       avgHMPI = Fin 10\<rparr>]
   \<and> metalChartData [sample_lead_10\<lparr>metal := ''__proto__''\<rparr>] = []"
proof -
  have i: "calculateHMPI (sample_lead_10\<lparr>metal := m\<rparr>) = Fin 10" for m
    by (simp add: calculateHMPI_def sample_lead_10_def num_divide_def num_multiply_def Let_def
        floor_eq_iff)
  have C: "metalDistribution [sample_lead_10\<lparr>metal := ''constructor''\<rparr>]
        = [(''constructor'', Str ''function Object() { [native code] }1'')]"
    by (simp add: metalDistribution_fold count_key_def obj_get_def obj_set_def or_zero_def
        object_prototype_names_def builtin_to_string_def)
  have P: "metalDistribution [sample_lead_10\<lparr>metal := ''__proto__''\<rparr>] = []"
    by (simp add: metalDistribution_fold count_key_def obj_set_def)
  have "metalChartData [sample_lead_10\<lparr>metal := ''constructor''\<rparr>] =
     [\<lparr>m_name = ''constructor'', m_count = Str ''function Object() { [native code] }1'',
       avgHMPI = Fin 10\<rparr>]"
    by (simp add: metalChartData_def C object_entries_single not_array_index samplesWithHMPI_def
        scored_fields i num_add_def num_divide_def)
  moreover have "metalChartData [sample_lead_10\<lparr>metal := ''__proto__''\<rparr>] = []"
    by (simp add: metalChartData_def P object_entries_def)
  ultimately show ?thesis by simp
qed

end
